theory Spec2Isabelle
  imports Main
begin

section \<open>The host tree behind the universe\<close>

text \<open>
  Anteater.js is written against a \<open>universe\<close> object: \<open>universe.eq\<close>,
  \<open>universe.property().parent\<close>, \<open>universe.property().children\<close> and
  \<open>universe.insert().prepend\<close>. The object is handed in by the caller, so the
  host tree it reads and mutates is modelled here: a forest of elements, each an opaque
  handle with its ordered children. A JavaScript function that mutates the tree takes the
  forest and returns the new one.
\<close>

type_synonym element = nat

datatype dom = Element (handle: element) (kids: "dom list")

type_synonym universe = "dom list"

text \<open>Modelled from the spec: \<open>isSame(a, b)\<close> of the Tree Capability (section 4.1),
  identity equality of two handles; the universe object is not among the sources.\<close>

definition eq :: "element \<Rightarrow> element \<Rightarrow> bool" where
  "eq a b = (a = b)"

text \<open>Modelled from the spec: the node a handle refers to in the host-owned tree
  (section 3, Tree Node), found by the handle's identity; the host tree is not among the
  sources.\<close>

fun lookup :: "element \<Rightarrow> dom \<Rightarrow> dom option"
  and lookup_list :: "element \<Rightarrow> dom list \<Rightarrow> dom option" where
  "lookup e (Element h cs) = (if h = e then Some (Element h cs) else lookup_list e cs)"
| "lookup_list e [] = None"
| "lookup_list e (t # ts) =
     (case lookup e t of Some n \<Rightarrow> Some n | None \<Rightarrow> lookup_list e ts)"

text \<open>Modelled from the spec: \<open>childrenOf(n)\<close> of the Tree Capability (section 4.1),
  the ordered sequence of the direct children of a node; a handle that is not in the tree
  has none.\<close>

definition property_children :: "universe \<Rightarrow> element \<Rightarrow> element list" where
  "property_children u e =
     (case lookup_list e u of None \<Rightarrow> [] | Some n \<Rightarrow> map handle (kids n))"

text \<open>Modelled from the spec: the adjacency the host tree keeps (section 3): the
  parent of a handle is the node that has it among its direct children.\<close>

fun parent_in :: "element \<Rightarrow> dom \<Rightarrow> element option"
  and parent_in_list :: "element \<Rightarrow> dom list \<Rightarrow> element option" where
  "parent_in e (Element h cs) =
     (if e \<in> set (map handle cs) then Some h else parent_in_list e cs)"
| "parent_in_list e [] = None"
| "parent_in_list e (t # ts) =
     (case parent_in e t of Some p \<Rightarrow> Some p | None \<Rightarrow> parent_in_list e ts)"

text \<open>Modelled from the spec: \<open>parentOf(n)\<close> of the Tree Capability (section 4.1),
  absent for a root of the forest and for a handle that is not in it.\<close>

definition property_parent :: "universe \<Rightarrow> element \<Rightarrow> element option" where
  "property_parent u e = parent_in_list e u"

text \<open>Modelled from the spec: the walk of \<open>parentOf\<close> from a node to its root
  (section 4.2), as the path of the tree that leads to the node, read upward.\<close>

fun path_in :: "element \<Rightarrow> dom \<Rightarrow> element list option"
  and path_in_list :: "element \<Rightarrow> dom list \<Rightarrow> element list option" where
  "path_in e (Element h cs) =
     (if h = e then Some []
      else (case path_in_list e cs of None \<Rightarrow> None | Some p \<Rightarrow> Some (p @ [h])))"
| "path_in_list e [] = None"
| "path_in_list e (t # ts) =
     (case path_in e t of Some p \<Rightarrow> Some p | None \<Rightarrow> path_in_list e ts)"

text \<open>Modelled from the spec: the chain of ancestors of a node (section 3, Ancestor
  Chain), the node excluded, ordered from the nearest ancestor to the farthest.\<close>

definition up_all :: "universe \<Rightarrow> element \<Rightarrow> element list" where
  "up_all u e = (case path_in_list e u of None \<Rightarrow> [] | Some p \<Rightarrow> p)"

text \<open>Modelled from the spec: document order (section 3), the order in which the nodes
  of the tree are met from the root, a node before its children and these from left to
  right; \<open>leaves\<close> keeps the nodes without children.\<close>

fun handles :: "dom \<Rightarrow> element list"
  and handles_list :: "dom list \<Rightarrow> element list" where
  "handles (Element h cs) = h # handles_list cs"
| "handles_list [] = []"
| "handles_list (t # ts) = handles t @ handles_list ts"

fun leaves :: "dom \<Rightarrow> element list"
  and leaves_list :: "dom list \<Rightarrow> element list" where
  "leaves (Element h cs) = (if cs = [] then [h] else leaves_list cs)"
| "leaves_list [] = []"
| "leaves_list (t # ts) = leaves t @ leaves_list ts"

text \<open>Modelled from the spec: the in-place edit of the host tree behind the mutation
  primitives (section 4.1): the node with the given handle is replaced, where it stands,
  by the nodes \<open>f\<close> makes of it.\<close>

fun subst :: "element \<Rightarrow> (dom \<Rightarrow> dom list) \<Rightarrow> dom \<Rightarrow> dom list"
  and subst_list :: "element \<Rightarrow> (dom \<Rightarrow> dom list) \<Rightarrow> dom list \<Rightarrow> dom list" where
  "subst e f (Element h cs) =
     (if h = e then f (Element h cs) else [Element h (subst_list e f cs)])"
| "subst_list e f [] = []"
| "subst_list e f (t # ts) = subst e f t @ subst_list e f ts"

text \<open>Modelled from the spec: \<open>prepend(container, newNode)\<close> of the Tree Capability
  (section 4.1). The node is moved, never copied (section 9): it leaves its old parent
  and becomes the first child of the container.\<close>

definition insert_prepend :: "universe \<Rightarrow> element \<Rightarrow> element \<Rightarrow> universe" where
  "insert_prepend u container node =
     (case lookup_list node u of
        None \<Rightarrow> u
      | Some n \<Rightarrow>
          subst_list container (\<lambda>c. [Element (handle c) (n # kids c)])
            (subst_list node (\<lambda>_. []) u))"

section \<open>Library functions of JavaScript and of compass\<close>

text \<open>Modelled from the spec: \<open>indexOf\<close> of section 4.5, which the source calls
  \<open>Arr.findIndex(children, pred)\<close>: the index of the first element that satisfies
  the predicate, and \<open>-1\<close> when there is none (the source tests \<open>fi > -1\<close>).\<close>

fun findIndex :: "'a list \<Rightarrow> ('a \<Rightarrow> bool) \<Rightarrow> int" where
  "findIndex [] p = - 1"
| "findIndex (x # xs) p =
     (if p x then 0 else (let r = findIndex xs p in if r = - 1 then - 1 else r + 1))"

text \<open>\<open>Array.prototype.slice(start, end)\<close> of JavaScript: a negative index counts
  from the end, both are clamped to the length, and the result is empty when the end is
  not after the start.\<close>

definition js_slice :: "'a list \<Rightarrow> int \<Rightarrow> int \<Rightarrow> 'a list" where
  "js_slice xs s e =
     (let n = int (length xs);
          k = (if s < 0 then max (n + s) 0 else min s n);
          f = (if e < 0 then max (n + e) 0 else min e n)
      in take (nat (f - k)) (drop (nat k) xs))"

section \<open>Anteater.js\<close>

text \<open>\<open>adt\<close>: the two variants \<open>parent\<close> and \<open>descendant\<close> generated by
  \<open>ADT.generate\<close>; \<open>fold\<close> takes one function per variant, in that order.\<close>

datatype adt = adt_parent element | adt_descendant element

text \<open>\<open>slice\<close>: the subsection of the direct children of \<open>parent\<close>. The calls of
  \<open>console.log\<close> are left out throughout: they print and change nothing.\<close>

definition slice_fi :: "element list \<Rightarrow> adt \<Rightarrow> int" where
  "slice_fi children first =
     (case first of adt_parent _ \<Rightarrow> 0 | adt_descendant f \<Rightarrow> findIndex children (eq f))"

definition slice_li :: "element list \<Rightarrow> adt \<Rightarrow> int" where
  "slice_li children last' =
     (case last' of
        adt_parent _ \<Rightarrow> int (length children)
      | adt_descendant l \<Rightarrow> findIndex children (eq l) + 1)"

definition slice :: "universe \<Rightarrow> element \<Rightarrow> adt \<Rightarrow> adt \<Rightarrow> element list option" where
  "slice universe parent first last' =
     (let children = property_children universe parent;
          fi = slice_fi children first;
          li = slice_li children last'
      in if fi > - 1 \<and> li > - 1 then Some (js_slice children fi li) else None)"

section \<open>The library modules Anteater.js calls\<close>

text \<open>Modelled from the spec: a fresh handle for a shell created by a break; the
  host's \<open>clone\<close> is not among the sources. It is above every handle of the forest.\<close>

definition fresh :: "universe \<Rightarrow> element" where
  "fresh u = Suc (fold max (handles_list u) 0)"

text \<open>Modelled from the spec: the pair \<open>(left, right)\<close> a break returns (section
  4.4).\<close>

record leftRight =
  left :: element
  right :: element

text \<open>Modelled from the spec: \<open>breakAt(parent, childBoundaryNode)\<close> of the Structural
  Breaker (section 4.4); \<open>Parent.breakAt\<close> is not among the sources. The boundary is
  located among the direct children of the parent. When it is the first child there is no
  split. Otherwise two new shells take the place of the parent: the children before the
  boundary move to the left one, the boundary and the children after it to the right one.
  The spec does not say what happens when the boundary is not a child of the parent; no
  split is made then.\<close>

definition breakAt :: "universe \<Rightarrow> element \<Rightarrow> element \<Rightarrow> leftRight option \<times> universe" where
  "breakAt u parent child =
     (let children = property_children u parent;
          index = findIndex children (eq child)
      in if index < 1 then (None, u)
         else (let l = fresh u; r = Suc (fresh u)
               in (Some \<lparr>left = l, right = r\<rparr>,
                   subst_list parent
                     (\<lambda>n. [Element l (take (nat index) (kids n)),
                           Element r (drop (nat index) (kids n))]) u)))"

text \<open>What a JavaScript test of a value sees: \<open>if (v)\<close> takes a function object for
  true, as it does every object.\<close>

datatype jsval = JSBoolean bool | JSFunction

fun truthy :: "jsval \<Rightarrow> bool" where
  "truthy (JSBoolean b) = b"
| "truthy JSFunction = True"

text \<open>Modelled from the spec: \<open>breakPath(node, isTop, breakFn)\<close> of the Structural
  Breaker (section 4.4); \<open>Parent.breakPath\<close> is not among the sources. It walks
  upward from the node while \<open>isTop\<close> is false, applying \<open>breakFn\<close> to the
  parent and the child at each level, and stops when \<open>isTop\<close> holds, when no parent
  remains or when \<open>breakFn\<close> made no split. The result is the pair \<open>(first,
  second)\<close>: the node the walk stopped at and the right half of the last split, if any.
  After a split the shell that took the parent's place on the left is looked at next and
  the right half is threaded along. The walk is a loop over a tree that each step
  changes, so not returning is the value \<open>None\<close>.\<close>

partial_function (option) breakPath_next ::
  "(element \<Rightarrow> jsval) \<Rightarrow> (universe \<Rightarrow> element \<Rightarrow> element \<Rightarrow> leftRight option \<times> universe)
     \<Rightarrow> universe \<Rightarrow> element \<Rightarrow> element option
     \<Rightarrow> ((element \<times> element option) \<times> universe) option" where
  "breakPath_next isTop breaker u child grp =
     (if truthy (isTop child) then Some ((child, grp), u)
      else (case property_parent u child of
              None \<Rightarrow> Some ((child, None), u)
            | Some parent \<Rightarrow>
                (case breaker u parent child of
                   (None, u') \<Rightarrow> Some ((child, None), u')
                 | (Some b, u') \<Rightarrow> breakPath_next isTop breaker u' (left b) (Some (right b)))))"

text \<open>Modelled from the spec: the entry of \<open>breakPath\<close>, the walk started at the
  node with no second part yet.\<close>

definition breakPath ::
  "universe \<Rightarrow> element \<Rightarrow> (element \<Rightarrow> jsval)
     \<Rightarrow> (universe \<Rightarrow> element \<Rightarrow> element \<Rightarrow> leftRight option \<times> universe)
     \<Rightarrow> ((element \<times> element option) \<times> universe) option" where
  "breakPath u item isTop breaker = breakPath_next isTop breaker u item None"

text \<open>Modelled from the spec: \<open>ancestorsUntil(node, stop)\<close> of the Ancestor Path
  (section 4.2): the ancestors of the node, the node excluded, up to and excluding the
  first one for which \<open>stop\<close> holds.\<close>

definition ancestorsUntil :: "universe \<Rightarrow> element \<Rightarrow> (element \<Rightarrow> bool) \<Rightarrow> element list" where
  "ancestorsUntil u node stop = takeWhile (\<lambda>a. \<not> stop a) (up_all u node)"

text \<open>Modelled from the spec: steps 1 and 2 of the Common Ancestor Resolver (section
  4.3), which the source reads as \<open>Subset.ancestors(universe, start, finish,
  isRoot).shared()\<close>; \<open>Subset\<close> is not among the sources. Both chains have the node
  itself as head; the result is the first node of the chain of \<open>start\<close> that is in
  the chain of \<open>finish\<close>.\<close>

definition subset_shared ::
  "universe \<Rightarrow> element \<Rightarrow> element \<Rightarrow> (element \<Rightarrow> bool) \<Rightarrow> element option" where
  "subset_shared u start finish isRoot =
     List.find (\<lambda>x. x \<in> set (finish # ancestorsUntil u finish isRoot))
       (start # ancestorsUntil u start isRoot)"

text \<open>Modelled from the spec: the nearest node, from \<open>elem\<close> itself upward, that
  satisfies the predicate; \<open>PredicateFind.closest\<close> is not among the sources.\<close>

definition closest :: "universe \<Rightarrow> element \<Rightarrow> (element \<Rightarrow> bool) \<Rightarrow> element option" where
  "closest u elem isRoot = List.find isRoot (elem # up_all u elem)"

text \<open>Modelled from the spec: step 3 of the Common Ancestor Resolver (section 4.3), the
  fallback the source reads as \<open>Parent.sharedOne(universe, look, [start, finish])\<close>;
  \<open>Parent.sharedOne\<close> is not among the sources. \<open>look\<close> finds a candidate from each
  element; the candidate is shared when it is the same node for all of them.\<close>

fun sharedOne ::
  "universe \<Rightarrow> (universe \<Rightarrow> element \<Rightarrow> element option) \<Rightarrow> element list \<Rightarrow> element option" where
  "sharedOne u look [] = None"
| "sharedOne u look (x # xs) =
     (case look u x of
        None \<Rightarrow> None
      | Some s \<Rightarrow> if list_all (\<lambda>y. look u y = Some s) xs then Some s else None)"

section \<open>Anteater.js, the breaks\<close>

text \<open>\<open>breaker\<close>: \<open>Parent.breakAt\<close>, then the child is moved into the second part
  of the break. The source prepends to \<open>b\<close>, the value of the break, and its comment
  calls it the second part: that is the right shell of the pair the spec gives
  \<open>breakAt\<close>.\<close>

definition breaker :: "universe \<Rightarrow> element \<Rightarrow> element \<Rightarrow> leftRight option \<times> universe" where
  "breaker universe parent child =
     (case breakAt universe parent child of
        (None, u') \<Rightarrow> (None, u')
      | (Some b, u') \<Rightarrow> (Some b, insert_prepend u' (right b) child))"

text \<open>\<open>isTop\<close> as the source has it: a function of one argument, named
  \<open>universe\<close>, that returns another function, of \<open>common\<close>. \<open>breakLeft\<close> and
  \<open>breakRight\<close> hand \<open>isTop\<close> itself to \<open>Parent.breakPath\<close>, which calls it with
  a node, so what \<open>breakPath\<close> tests is the inner function object. The inner function
  is never called; its body reads a variable \<open>elem\<close> that no scope binds.
  \<open>isTop_body\<close> is that body with \<open>elem\<close> as a parameter.\<close>

definition isTop :: "element \<Rightarrow> jsval" where
  "isTop universe = JSFunction"

definition isTop_body :: "universe \<Rightarrow> element \<Rightarrow> element \<Rightarrow> bool" where
  "isTop_body universe common elem =
     (case property_parent universe elem of None \<Rightarrow> True | Some el \<Rightarrow> eq common el)"

text \<open>\<open>breakLeft\<close>, \<open>breakRight\<close> and \<open>fossil\<close> call \<open>Parent.breakPath\<close>,
  which is not among the sources. Each is translated with that function as its first
  argument \<open>bp\<close> (\<open>breakLeft_with\<close>, \<open>breakRight_with\<close>, \<open>fossil_with\<close>): the
  body is the source's, and what it says holds for whatever the library does.
  \<open>breakLeft\<close>, \<open>breakRight\<close> and \<open>fossil\<close> are these functions with the
  \<open>breakPath\<close> modelled from the spec.\<close>

type_synonym break_fn = "universe \<Rightarrow> element \<Rightarrow> element \<Rightarrow> leftRight option \<times> universe"

type_synonym breakPath_fn =
  "universe \<Rightarrow> element \<Rightarrow> (element \<Rightarrow> jsval) \<Rightarrow> break_fn
     \<Rightarrow> ((element \<times> element option) \<times> universe) option"

definition breakLeft_with ::
  "breakPath_fn \<Rightarrow> universe \<Rightarrow> element \<Rightarrow> element \<Rightarrow> (adt \<times> universe) option" where
  "breakLeft_with bp universe element common =
     (if eq common element then Some (adt_parent element, universe)
      else (case bp universe element isTop breaker of
              None \<Rightarrow> None
            | Some ((first, second), u') \<Rightarrow>
                Some (adt_descendant (case second of None \<Rightarrow> element | Some s \<Rightarrow> s), u')))"

definition breakRight_with ::
  "breakPath_fn \<Rightarrow> universe \<Rightarrow> element \<Rightarrow> element \<Rightarrow> (adt \<times> universe) option" where
  "breakRight_with bp universe element common =
     (if eq common element then Some (adt_parent element, universe)
      else (case bp universe element isTop breakAt of
              None \<Rightarrow> None
            | Some ((first, second), u') \<Rightarrow> Some (adt_descendant first, u')))"

definition breakLeft :: "universe \<Rightarrow> element \<Rightarrow> element \<Rightarrow> (adt \<times> universe) option" where
  "breakLeft universe element common = breakLeft_with breakPath universe element common"

definition breakRight :: "universe \<Rightarrow> element \<Rightarrow> element \<Rightarrow> (adt \<times> universe) option" where
  "breakRight universe element common = breakRight_with breakPath universe element common"

section \<open>Anteater.js, fossil\<close>

definition shared ::
  "universe \<Rightarrow> (element \<Rightarrow> bool) \<Rightarrow> element \<Rightarrow> element \<Rightarrow> element option" where
  "shared universe isRoot start finish =
     (case subset_shared universe start finish isRoot of
        None \<Rightarrow> sharedOne universe (\<lambda>_ elem. closest universe elem isRoot) [start, finish]
      | Some sh \<Rightarrow> Some sh)"

text \<open>\<open>fossil\<close> returns the slice, or \<open>None\<close> for \<open>Option.none()\<close>, and the tree
  as it has left it. The outer \<open>option\<close> is \<open>None\<close> only when a walk of
  \<open>breakPath\<close> does not return.\<close>

definition fossil_with ::
  "breakPath_fn \<Rightarrow> universe \<Rightarrow> (element \<Rightarrow> bool) \<Rightarrow> element \<Rightarrow> element
     \<Rightarrow> (element list option \<times> universe) option" where
  "fossil_with bp universe isRoot start finish =
     (case shared universe isRoot start finish of
        None \<Rightarrow> Some (None, universe)
      | Some common \<Rightarrow>
          (case breakRight_with bp universe finish common of
             None \<Rightarrow> None
           | Some (secondBreak, u1) \<Rightarrow>
               (case breakLeft_with bp u1 start common of
                  None \<Rightarrow> None
                | Some (firstBreak, u2) \<Rightarrow>
                    Some (slice u2 common firstBreak secondBreak, u2))))"

definition fossil ::
  "universe \<Rightarrow> (element \<Rightarrow> bool) \<Rightarrow> element \<Rightarrow> element
     \<Rightarrow> (element list option \<times> universe) option" where
  "fossil universe isRoot start finish = fossil_with breakPath universe isRoot start finish"

section \<open>The spec's reading of a span, for comparison\<close>

text \<open>The descendant leaves of a handle, in document order, those of a sequence of
  handles, concatenated, and the leaves that lie between \<open>start\<close> and \<open>finish\<close>
  inclusive (sections 3 and 8 of the spec): from the first leaf of \<open>start\<close> to the
  last leaf of \<open>finish\<close>.\<close>

definition leaves_of :: "universe \<Rightarrow> element \<Rightarrow> element list" where
  "leaves_of u e = (case lookup_list e u of None \<Rightarrow> [] | Some n \<Rightarrow> leaves n)"

definition leaves_of_slice :: "universe \<Rightarrow> element list \<Rightarrow> element list" where
  "leaves_of_slice u xs = concat (map (leaves_of u) xs)"

definition span_leaves :: "universe \<Rightarrow> element \<Rightarrow> element \<Rightarrow> element list" where
  "span_leaves u start finish =
     (case (leaves_of u start, rev (leaves_of u finish)) of
        (a # _, b # _) \<Rightarrow>
          (let after = dropWhile (\<lambda>x. x \<noteq> a) (leaves_list u)
           in if b \<in> set after then takeWhile (\<lambda>x. x \<noteq> b) after @ [b] else [])
      | _ \<Rightarrow> [])"

text \<open>No common ancestor, in the spec's words (sections 4.3 and 7): the chains of
  \<open>start\<close> and \<open>finish\<close> up to the root predicate share no node, and no node that
  satisfies \<open>isRoot\<close> is, for each of the two, the node itself or one of its
  ancestors. Two nodes of disjoint trees are such a pair.\<close>

definition no_common_ancestor ::
  "universe \<Rightarrow> (element \<Rightarrow> bool) \<Rightarrow> element \<Rightarrow> element \<Rightarrow> bool" where
  "no_common_ancestor u isRoot start finish =
     (filter (\<lambda>x. x \<in> set (finish # ancestorsUntil u finish isRoot))
        (start # ancestorsUntil u start isRoot) = [] \<and>
      filter (\<lambda>r. isRoot r \<and> r \<in> set (finish # up_all u finish))
        (start # up_all u start) = [])"


section \<open>SetContent.ts\<close>

text \<open>\<open>Content\<close> is a string or an \<open>AstNode\<close>; \<open>isTreeNode\<close> is the
  \<open>instanceof\<close> test.\<close>

datatype 'n content = ContentString string | ContentTree 'n

fun isTreeNode :: "'n content \<Rightarrow> bool" where
  "isTreeNode (ContentTree _) = True"
| "isTreeNode (ContentString _) = False"

text \<open>\<open>SetContentArgs\<close> and its \<open>Partial\<close>, with the fields the file reads: a
  field of the partial record is \<open>None\<close> when the caller left it out.\<close>

record setContentArgs =
  arg_format :: string
  arg_set :: bool
  arg_content :: string
  arg_no_selection :: "bool option"

record partialArgs =
  p_format :: "string option"
  p_set :: "bool option"
  p_content :: "string option"
  p_no_selection :: "bool option"

record 'n setContentResult =
  res_content :: "'n content"
  res_html :: string

datatype 'd html = HtmlString string | HtmlNode 'd

text \<open>The editor and the modules the file imports are not among the sources: the
  editor is a state \<open>'e\<close> and each service the file calls is a field of the host, a
  function of the editor state that returns the new state where the call has an effect.
  \<open>selectFirstPosition\<close> is the body of \<open>moveSelection\<close> under its focus test:
  \<open>CaretFinder.firstPositionIn(editor.getBody()).each(...)\<close>.\<close>

record ('e, 'b, 'n, 'd) host =
  getBody :: "'e \<Rightarrow> 'b option"
  nodeName :: "'b \<Rightarrow> string"
  preProcessSetContent :: "'e \<Rightarrow> setContentArgs \<Rightarrow> setContentArgs option \<times> 'e"
  postProcessSetContent :: "'e \<Rightarrow> string \<Rightarrow> setContentArgs \<Rightarrow> 'e"
  dom_setHTML :: "'e \<Rightarrow> 'b option \<Rightarrow> string \<Rightarrow> 'e"
  remove_empty :: "'e \<Rightarrow> 'b option \<Rightarrow> 'e"
  appendChild :: "'e \<Rightarrow> 'b option \<Rightarrow> 'd \<Rightarrow> 'e"
  hasFocus :: "'e \<Rightarrow> bool"
  selectFirstPosition :: "'e \<Rightarrow> 'e"
  getForcedRootBlock :: "'e \<Rightarrow> string"
  getForcedRootBlockAttrs :: "'e \<Rightarrow> (string \<times> string) list"
  schema_isValidChild :: "'e \<Rightarrow> string \<Rightarrow> string \<Rightarrow> bool"
  dom_createHTML :: "'e \<Rightarrow> string \<Rightarrow> (string \<times> string) list \<Rightarrow> string \<Rightarrow> string"
  parser_parse :: "'e \<Rightarrow> string \<Rightarrow> 'd"
  filterNode :: "'e \<Rightarrow> 'n \<Rightarrow> 'n"
  serialize :: "'e \<Rightarrow> 'n \<Rightarrow> string"
  isWsPreserveElement :: "'b \<Rightarrow> bool"
  tools_trim :: "string \<Rightarrow> string"

definition defaultFormat :: string where
  "defaultFormat = ''html''"

definition moveSelection :: "('e, 'b, 'n, 'd) host \<Rightarrow> 'e \<Rightarrow> 'e" where
  "moveSelection h editor = (if hasFocus h editor then selectFirstPosition h editor else editor)"

definition setEditorHtml ::
  "('e, 'b, 'n, 'd) host \<Rightarrow> 'e \<Rightarrow> 'd html \<Rightarrow> bool option \<Rightarrow> 'e" where
  "setEditorHtml h editor html noSelection =
     (let e1 = (case html of
                  HtmlString s \<Rightarrow> dom_setHTML h editor (getBody h editor) s
                | HtmlNode d \<Rightarrow>
                    (let e0 = remove_empty h editor (getBody h editor)
                     in appendChild h e0 (getBody h e0) d))
      in if noSelection = Some True then e1 else moveSelection h e1)"

text \<open>The strings of the model are byte strings, a character beyond ASCII being its
  UTF-8 bytes. \<open>allWhitespace\<close> says that a byte string holds nothing but characters
  that \<open>\s\<close> matches in JavaScript: tab, line feed, vertical tab, form feed, carriage
  return, space, U+00A0 (C2 A0), U+1680 (E1 9A 80), U+2000 to U+200A (E2 80 80 to
  E2 80 8A), U+2028 and U+2029 (E2 80 A8, E2 80 A9), U+202F (E2 80 AF), U+205F
  (E2 81 9F), U+3000 (E3 80 80) and U+FEFF (EF BB BF). \<open>whitespaceOnly\<close> is the test
  \<open>/^\s+$/.test(content)\<close>, which also asks for one character at least.\<close>

fun allWhitespace :: "nat list \<Rightarrow> bool" where
  "allWhitespace [] = True"
| "allWhitespace (a # bs) =
     (if a = 9 \<or> a = 10 \<or> a = 11 \<or> a = 12 \<or> a = 13 \<or> a = 32 then allWhitespace bs
      else if a = 194 then
        (case bs of b # r \<Rightarrow> b = 160 \<and> allWhitespace r | _ \<Rightarrow> False)
      else if a = 225 then
        (case bs of b # c # r \<Rightarrow> b = 154 \<and> c = 128 \<and> allWhitespace r | _ \<Rightarrow> False)
      else if a = 226 then
        (case bs of
           b # c # r \<Rightarrow>
             (b = 128 \<and> (128 \<le> c \<and> c \<le> 138 \<or> c = 168 \<or> c = 169 \<or> c = 175) \<or>
              b = 129 \<and> c = 159) \<and> allWhitespace r
         | _ \<Rightarrow> False)
      else if a = 227 then
        (case bs of b # c # r \<Rightarrow> b = 128 \<and> c = 128 \<and> allWhitespace r | _ \<Rightarrow> False)
      else if a = 239 then
        (case bs of b # c # r \<Rightarrow> b = 187 \<and> c = 191 \<and> allWhitespace r | _ \<Rightarrow> False)
      else False)"

definition whitespaceOnly :: "string \<Rightarrow> bool" where
  "whitespaceOnly content = (0 < length content \<and> allWhitespace (map of_char content))"

text \<open>\<open>toLowerCase\<close> on the letters A to Z; the bytes of a character beyond ASCII are
  left as they are.\<close>

definition toLowerCase :: "string \<Rightarrow> string" where
  "toLowerCase s =
     map (\<lambda>c. if 65 \<le> (of_char c :: nat) \<and> (of_char c :: nat) \<le> 90
              then char_of (of_char c + 32 :: nat) else c) s"

definition padd :: string where
  \<open>padd = ''<br data-mce-bogus="1">''\<close>

definition setContentString ::
  "('e, 'b, 'n, 'd) host \<Rightarrow> 'e \<Rightarrow> 'b \<Rightarrow> string \<Rightarrow> setContentArgs
     \<Rightarrow> 'n setContentResult \<times> 'e" where
  "setContentString h editor body content args =
     (if length content = 0 \<or> whitespaceOnly content then
        (let c1 = (if nodeName h body = ''TABLE'' then ''<tr><td>'' @ padd @ ''</td></tr>''
                   else if nodeName h body = ''UL'' \<or> nodeName h body = ''OL''
                   then ''<li>'' @ padd @ ''</li>''
                   else content);
             forcedRootBlockName = getForcedRootBlock h editor;
             c2 = (if forcedRootBlockName \<noteq> [] \<and>
                      schema_isValidChild h editor (toLowerCase (nodeName h body))
                        (toLowerCase forcedRootBlockName)
                   then dom_createHTML h editor forcedRootBlockName
                          (getForcedRootBlockAttrs h editor) padd
                   else if c1 = [] then padd
                   else c1)
         in (\<lparr>res_content = ContentString c2, res_html = c2\<rparr>,
             setEditorHtml h editor (HtmlString c2) (arg_no_selection args)))
      else
        (let fragment = parser_parse h editor content
         in (\<lparr>res_content = ContentString content, res_html = content\<rparr>,
             setEditorHtml h editor (HtmlNode fragment) (arg_no_selection args))))"

definition setContentTree ::
  "('e, 'b, 'n, 'd) host \<Rightarrow> 'e \<Rightarrow> 'b \<Rightarrow> 'n \<Rightarrow> setContentArgs
     \<Rightarrow> 'n setContentResult \<times> 'e" where
  "setContentTree h editor body content args =
     (let filtered = filterNode h editor content;
          html = serialize h editor filtered;
          trimmedHtml = (if isWsPreserveElement h body then html else tools_trim h html)
      in (\<lparr>res_content = ContentTree filtered, res_html = trimmedHtml\<rparr>,
          setEditorHtml h editor (HtmlString trimmedHtml) (arg_no_selection args)))"

definition setupArgs :: "partialArgs \<Rightarrow> 'n content \<Rightarrow> setContentArgs" where
  "setupArgs args content =
     \<lparr>arg_format = (case p_format args of None \<Rightarrow> defaultFormat | Some f \<Rightarrow> f),
      arg_set = True,
      arg_content = (case content of ContentTree _ \<Rightarrow> [] | ContentString s \<Rightarrow> s),
      arg_no_selection = p_no_selection args\<rparr>"

text \<open>\<open>setContentInternal\<close> returns the content and the editor as it has left it.\<close>

definition setContentInternal ::
  "('e, 'b, 'n, 'd) host \<Rightarrow> 'e \<Rightarrow> 'n content \<Rightarrow> partialArgs \<Rightarrow> 'n content \<times> 'e" where
  "setContentInternal h editor content args =
     (let defaultedArgs = setupArgs args content
      in (case preProcessSetContent h editor defaultedArgs of
            (None, e1) \<Rightarrow> (content, e1)
          | (Some updatedArgs, e1) \<Rightarrow>
              (let updatedContent =
                     (if isTreeNode content then content
                      else ContentString (arg_content updatedArgs));
                   result =
                     (case getBody h e1 of
                        None \<Rightarrow>
                          (\<lparr>res_content = content, res_html = arg_content updatedArgs\<rparr>, e1)
                      | Some body \<Rightarrow>
                          (case updatedContent of
                             ContentTree t \<Rightarrow> setContentTree h e1 body t updatedArgs
                           | ContentString s \<Rightarrow> setContentString h e1 body s updatedArgs))
               in (res_content (fst result),
                   postProcessSetContent h (snd result) (res_html (fst result)) updatedArgs))))"

section \<open>Example trees and an example host\<close>

text \<open>\<open>R0[1, B2[3, 4, 5]]\<close>: the root 0 has the leaf 1 and the node 2, whose children
  are the leaves 3, 4 and 5.\<close>

definition tree_nested_finish :: universe where
  "tree_nested_finish =
     [Element 0 [Element 1 [], Element 2 [Element 3 [], Element 4 [], Element 5 []]]]"

text \<open>\<open>R0[A1[2, 3, 4], 5]\<close>: the root 0 has the node 1, whose children are the leaves
  2, 3 and 4, and the leaf 5.\<close>

definition tree_nested_start :: universe where
  "tree_nested_start =
     [Element 0 [Element 1 [Element 2 [], Element 3 [], Element 4 []], Element 5 []]]"

text \<open>\<open>R0[A1[2, 3], 4]\<close>: the root 0 has the node 1, whose children are the leaves
  2 and 3, and the leaf 4.\<close>

definition tree_first_child :: universe where
  "tree_first_child = [Element 0 [Element 1 [Element 2 [], Element 3 []], Element 4 []]]"

text \<open>\<open>P0[1, 2, 3, 4]\<close>: four leaves under one parent.\<close>

definition tree_siblings :: universe where
  "tree_siblings = [Element 0 [Element 1 [], Element 2 [], Element 3 [], Element 4 []]]"

text \<open>Two trees with no node in common: \<open>0[1]\<close> and \<open>2[3]\<close>.\<close>

definition forest_disjoint :: universe where
  "forest_disjoint = [Element 0 [Element 1 []], Element 2 [Element 3 []]]"

definition noRoot :: "element \<Rightarrow> bool" where
  "noRoot n = False"

text \<open>\<open>R0[A1[2, 3, 4], B5[6, 7, 8]]\<close>: the root 0 has the nodes 1 and 5, each with
  three leaves.\<close>

definition tree_two_branches :: universe where
  "tree_two_branches =
     [Element 0 [Element 1 [Element 2 [], Element 3 [], Element 4 []],
                 Element 5 [Element 6 [], Element 7 [], Element 8 []]]]"

text \<open>An example of a library \<open>breakPath\<close> that does split: whatever \<open>isTop\<close>
  says, it breaks the parent of the node once and returns the two shells. In a tree
  whose boundaries are grandchildren of the common ancestor that is the whole walk.\<close>

definition breakPath_once :: breakPath_fn where
  "breakPath_once u item isTop' brk =
     (case property_parent u item of
        None \<Rightarrow> Some ((item, None), u)
      | Some parent \<Rightarrow>
          (case brk u parent item of
             (None, u') \<Rightarrow> Some ((item, None), u')
           | (Some b, u') \<Rightarrow> Some ((left b, Some (right b)), u')))"

text \<open>An example host for SetContent.ts. The editor is a flag that says whether it
  has a body, and the list of what has been written to its document and of the events
  fired after it. Its \<open>preProcessSetContent\<close> yields no arguments for the content
  \<open>veto\<close>, as a handler of \<open>BeforeSetContent\<close> that prevents the default does.\<close>

definition example_host :: "(bool \<times> string list, unit, nat, string) host" where
  "example_host =
     \<lparr>getBody = (\<lambda>e. if fst e then Some () else None),
      nodeName = (\<lambda>b. ''BODY''),
      preProcessSetContent = (\<lambda>e a. (if arg_content a = ''veto'' then None else Some a, e)),
      postProcessSetContent = (\<lambda>e html a. (fst e, snd e @ [''SetContent''])),
      dom_setHTML = (\<lambda>e b s. (fst e, snd e @ [s])),
      remove_empty = (\<lambda>e b. e),
      appendChild = (\<lambda>e b d. (fst e, snd e @ [d])),
      hasFocus = (\<lambda>e. False),
      selectFirstPosition = (\<lambda>e. e),
      getForcedRootBlock = (\<lambda>e. ''p''),
      getForcedRootBlockAttrs = (\<lambda>e. []),
      schema_isValidChild = (\<lambda>e p c. True),
      dom_createHTML = (\<lambda>e n attrs c. ''<'' @ n @ ''>'' @ c @ ''</'' @ n @ ''>''),
      parser_parse = (\<lambda>e s. s),
      filterNode = (\<lambda>e n. n),
      serialize = (\<lambda>e n. ''<p>tree</p>''),
      isWsPreserveElement = (\<lambda>b. False),
      tools_trim = (\<lambda>s. s)\<rparr>"

definition no_args :: partialArgs where
  "no_args = \<lparr>p_format = None, p_set = None, p_content = None, p_no_selection = None\<rparr>"

lemmas query_defs = shared_def subset_shared_def ancestorsUntil_def up_all_def closest_def
  property_children_def property_parent_def eq_def

lemmas slice_defs = slice_def slice_fi_def slice_li_def js_slice_def

section \<open>Lemmas on the library functions\<close>

lemma findIndex_ge: "- 1 \<le> findIndex xs p"
  by (induction xs) (auto simp: Let_def)

lemma find_SomeD: "List.find P xs = Some r \<Longrightarrow> P r \<and> r \<in> set xs"
  by (induction xs) (auto split: if_splits)

lemma js_slice_empty: "0 \<le> e \<Longrightarrow> e \<le> s \<Longrightarrow> js_slice xs s e = []"
  by (auto simp: js_slice_def Let_def)

lemma js_slice_from0: "0 \<le> e \<Longrightarrow> js_slice xs 0 e = take (nat e) xs"
  by (auto simp: js_slice_def Let_def min_def)

lemma js_slice_to_end: "0 \<le> s \<Longrightarrow> js_slice xs s (int (length xs)) = drop (nat s) xs"
  by (auto simp: js_slice_def Let_def min_def)

section \<open>Lemmas on slice and on the search for the common ancestor\<close>

lemma slice_li_ge: "0 \<le> slice_li cs l"
proof (cases l)
  case (adt_parent x)
  then show ?thesis by (simp add: slice_li_def)
next
  case (adt_descendant m)
  have "0 \<le> findIndex cs (eq m) + 1"
    using findIndex_ge [of cs "eq m"] by linarith
  with adt_descendant show ?thesis by (simp add: slice_li_def)
qed

text \<open>With a parent marker on the left the slice is the first \<open>li\<close> children; with one
  on the right it is the children from \<open>fi\<close> on, or nothing when \<open>fi\<close> is
  \<open>-1\<close>.\<close>

lemma slice_parent_first:
  "slice u c (adt_parent a) l =
     Some (take (nat (slice_li (property_children u c) l)) (property_children u c))"
proof -
  have "- 1 < slice_li (property_children u c) l"
    using slice_li_ge [of "property_children u c" l] by linarith
  then show ?thesis
    by (simp add: slice_def slice_fi_def Let_def js_slice_from0 slice_li_ge)
qed

lemma slice_parent_last:
  "slice u c f (adt_parent b) =
     (if slice_fi (property_children u c) f > - 1
      then Some (drop (nat (slice_fi (property_children u c) f)) (property_children u c))
      else None)"
  by (simp add: slice_def slice_li_def Let_def js_slice_to_end)

text \<open>When the boundary is the common ancestor, neither break calls the library.\<close>

lemma breakLeft_with_common: "breakLeft_with bp u c c = Some (adt_parent c, u)"
  by (simp add: breakLeft_with_def eq_def)

lemma breakRight_with_common: "breakRight_with bp u c c = Some (adt_parent c, u)"
  by (simp add: breakRight_with_def eq_def)

text \<open>The search for the common ancestor finds none for a pair that has none, and
  \<open>fossil\<close> then returns \<open>None\<close> and the tree it was given, whatever the library's
  \<open>breakPath\<close> would do to a tree: it is not called.\<close>

lemma shared_None_if_no_common_ancestor:
  assumes "no_common_ancestor u isRoot start finish"
  shows "shared u isRoot start finish = None"
proof -
  from assms have a: "subset_shared u start finish isRoot = None"
    by (auto simp: no_common_ancestor_def subset_shared_def find_None_iff filter_empty_conv)
  have b: "sharedOne u (\<lambda>_ elem. closest u elem isRoot) [start, finish] = None"
  proof (cases "closest u start isRoot")
    case None
    then show ?thesis by simp
  next
    case (Some r)
    then have "List.find isRoot (start # up_all u start) = Some r"
      by (simp only: closest_def)
    from find_SomeD [OF this]
    have r1: "isRoot r" and r2: "r \<in> set (start # up_all u start)"
      by blast+
    have "closest u finish isRoot \<noteq> Some r"
    proof
      assume "closest u finish isRoot = Some r"
      then have "List.find isRoot (finish # up_all u finish) = Some r"
        by (simp only: closest_def)
      from find_SomeD [OF this] have r3: "r \<in> set (finish # up_all u finish)"
        by blast
      from assms
      have "\<forall>x \<in> set (start # up_all u start).
              \<not> (isRoot x \<and> x \<in> set (finish # up_all u finish))"
        by (simp only: no_common_ancestor_def filter_empty_conv) blast
      with r1 r2 r3 show False
        by blast
    qed
    with Some show ?thesis by simp
  qed
  from a b show ?thesis
    by (simp add: shared_def)
qed

lemma fossil_with_no_common_ancestor:
  assumes "no_common_ancestor u isRoot start finish"
  shows "fossil_with bp u isRoot start finish = Some (None, u)"
  using shared_None_if_no_common_ancestor [OF assms] by (simp add: fossil_with_def)

section \<open>What the breaks of Anteater.js do\<close>

text \<open>\<open>breakPath\<close> tests \<open>isTop(child)\<close> first, and the value is a function
  object: the walk stops at the node it started from, with no second part and the tree
  as it was.\<close>

lemma breakPath_isTop: "breakPath u e isTop b = Some ((e, None), u)"
  by (simp add: breakPath_def breakPath_next.simps isTop_def)

lemma breakLeft_eval:
  "breakLeft u e c = Some (if c = e then adt_parent e else adt_descendant e, u)"
  by (simp add: breakLeft_def breakLeft_with_def breakPath_isTop eq_def)

lemma breakRight_eval:
  "breakRight u e c = Some (if c = e then adt_parent e else adt_descendant e, u)"
  by (simp add: breakRight_def breakRight_with_def breakPath_isTop eq_def)

lemma fossil_eval:
  "shared u isRoot start finish = Some common \<Longrightarrow>
   fossil u isRoot start finish =
     Some (slice u common (if common = start then adt_parent start else adt_descendant start)
             (if common = finish then adt_parent finish else adt_descendant finish), u)"
  by (simp add: fossil_def fossil_with_def breakRight_with_def breakLeft_with_def
      breakPath_isTop eq_def)


section \<open>The claims\<close>

text \<open>C1. For every valid pair with a common ancestor, the leaves of the slice that
  \<open>fossil\<close> returns are the leaves between \<open>start\<close> and \<open>finish\<close> inclusive.
  The code does that for two children of one parent: in \<open>P0[1, 2, 3, 4]\<close> with start
  2 and finish 3 it returns 2 and 3. It does not when a boundary lies below a direct
  child of the common ancestor. In \<open>R0[1, B2[3, 4, 5]]\<close> with start 1 and finish 4
  the common ancestor is 0 and the span has the leaves 1, 3 and 4, and \<open>fossil\<close>
  returns the empty slice with the tree untouched. In \<open>R0[A1[2, 3, 4], 5]\<close> with
  start 3 and finish 5 the span has the leaves 3, 4 and 5, and \<open>fossil\<close> returns no
  slice.\<close>

theorem fossil_nested_boundary_loses_span:
  "fossil tree_siblings noRoot 2 3 = Some (Some [2, 3], tree_siblings) \<and>
   leaves_of_slice tree_siblings [2, 3] = span_leaves tree_siblings 2 3 \<and>
   shared tree_nested_finish noRoot 1 4 = Some 0 \<and>
   span_leaves tree_nested_finish 1 4 = [1, 3, 4] \<and>
   fossil tree_nested_finish noRoot 1 4 = Some (Some [], tree_nested_finish) \<and>
   leaves_of_slice tree_nested_finish [] \<noteq> span_leaves tree_nested_finish 1 4 \<and>
   shared tree_nested_start noRoot 3 5 = Some 0 \<and>
   span_leaves tree_nested_start 3 5 = [3, 4, 5] \<and>
   fossil tree_nested_start noRoot 3 5 = Some (None, tree_nested_start)"
proof -
  have s: "shared tree_siblings noRoot 2 3 = Some 0"
    by (simp add: query_defs tree_siblings_def noRoot_def)
  have "slice tree_siblings 0 (adt_descendant 2) (adt_descendant 3) = Some [2, 3]"
    by (simp add: slice_defs property_children_def eq_def tree_siblings_def)
  with fossil_eval [OF s]
  have g: "fossil tree_siblings noRoot 2 3 = Some (Some [2, 3], tree_siblings)"
    by simp
  have h: "leaves_of_slice tree_siblings [2, 3] = span_leaves tree_siblings 2 3"
    by (simp add: leaves_of_slice_def span_leaves_def leaves_of_def tree_siblings_def)
  have a: "shared tree_nested_finish noRoot 1 4 = Some 0"
    by (simp add: query_defs tree_nested_finish_def noRoot_def)
  have b: "shared tree_nested_start noRoot 3 5 = Some 0"
    by (simp add: query_defs tree_nested_start_def noRoot_def)
  have c: "span_leaves tree_nested_finish 1 4 = [1, 3, 4]"
    by (simp add: span_leaves_def leaves_of_def tree_nested_finish_def)
  have d: "span_leaves tree_nested_start 3 5 = [3, 4, 5]"
    by (simp add: span_leaves_def leaves_of_def tree_nested_start_def)
  have "slice tree_nested_finish 0 (adt_descendant 1) (adt_descendant 4) = Some []"
    by (simp add: slice_defs property_children_def eq_def tree_nested_finish_def)
  with fossil_eval [OF a]
  have e: "fossil tree_nested_finish noRoot 1 4 = Some (Some [], tree_nested_finish)"
    by simp
  have "slice tree_nested_start 0 (adt_descendant 3) (adt_descendant 5) = None"
    by (simp add: slice_defs property_children_def eq_def tree_nested_start_def)
  with fossil_eval [OF b]
  have f: "fossil tree_nested_start noRoot 3 5 = Some (None, tree_nested_start)"
    by simp
  from a b c d e f g h show ?thesis
    by (simp add: leaves_of_slice_def)
qed



text \<open>C3. \<open>slice\<close> is to fail when either marker is not among the direct children of
  the common ancestor. For the right marker the code adds one to the index before it
  tests it against \<open>-1\<close>, so a marker that is not found gives the end index 0 and an
  empty slice instead of a failure: in \<open>R0[1, B2[3, 4, 5]]\<close> the handle 4 is not a
  child of 0, and the slice from the marker 1 to the marker 4 is the empty sequence.\<close>

theorem slice_missing_right_marker_is_empty:
  "findIndex (property_children tree_nested_finish 0) (eq 4) = - 1 \<and>
   slice_li (property_children tree_nested_finish 0) (adt_descendant 4) = 0 \<and>
   slice tree_nested_finish 0 (adt_descendant 1) (adt_descendant 4) = Some []"
  by (simp add: slice_defs property_children_def eq_def tree_nested_finish_def)

text \<open>C4. The first half holds: for the nodes 1 and 3 of two disjoint trees the search
  finds no common ancestor and \<open>fossil\<close> returns \<open>None\<close> with the tree as it was,
  also with a library that would split. The second half, that \<open>None\<close> is returned
  only then, does not: in \<open>R0[A1[2, 3, 4], 5]\<close> with start 3 and finish 5 the common
  ancestor is 0, the span has the leaves 3, 4 and 5, and \<open>fossil\<close> returns \<open>None\<close>,
  because the marker of the start side is 3 itself, never lifted to a child of 0.\<close>

theorem fossil_none_despite_common_ancestor:
  "no_common_ancestor forest_disjoint noRoot 1 3 \<and>
   shared forest_disjoint noRoot 1 3 = None \<and>
   fossil forest_disjoint noRoot 1 3 = Some (None, forest_disjoint) \<and>
   fossil_with breakPath_once forest_disjoint noRoot 1 3 = Some (None, forest_disjoint) \<and>
   shared tree_nested_start noRoot 3 5 = Some 0 \<and>
   span_leaves tree_nested_start 3 5 = [3, 4, 5] \<and>
   fossil tree_nested_start noRoot 3 5 = Some (None, tree_nested_start)"
proof -
  have n: "no_common_ancestor forest_disjoint noRoot 1 3"
    by (simp add: no_common_ancestor_def ancestorsUntil_def up_all_def forest_disjoint_def
        noRoot_def)
  have h: "shared forest_disjoint noRoot 1 3 = None"
    by (simp add: query_defs forest_disjoint_def noRoot_def)
  have a: "fossil forest_disjoint noRoot 1 3 = Some (None, forest_disjoint)"
    using h by (simp add: fossil_def fossil_with_def)
  have b: "fossil_with breakPath_once forest_disjoint noRoot 1 3 = Some (None, forest_disjoint)"
    using h by (simp add: fossil_with_def)
  have k: "shared tree_nested_start noRoot 3 5 = Some 0"
    by (simp add: query_defs tree_nested_start_def noRoot_def)
  have d: "span_leaves tree_nested_start 3 5 = [3, 4, 5]"
    by (simp add: span_leaves_def leaves_of_def tree_nested_start_def)
  have "slice tree_nested_start 0 (adt_descendant 3) (adt_descendant 5) = None"
    by (simp add: slice_defs property_children_def eq_def tree_nested_start_def)
  with fossil_eval [OF k]
  have f: "fossil tree_nested_start noRoot 3 5 = Some (None, tree_nested_start)"
    by simp
  from n h a b k d f show ?thesis
    by simp
qed

text \<open>C5. \<open>isTop\<close> is to hold for a node exactly when the node has no parent or its
  parent is the common ancestor. What \<open>breakPath\<close> receives is \<open>isTop\<close> itself, whose
  result on a node is the inner function and so counts as true for every node. In
  \<open>R0[A1[2, 3, 4], 5]\<close> with start 3 and finish 5 the common ancestor is 0 and the
  parent of 3 is 1: the body of the inner function would say that 3 is not the top, and
  the value \<open>breakPath\<close> tests says that it is.\<close>

theorem isTop_holds_below_the_top:
  "shared tree_nested_start noRoot 3 5 = Some 0 \<and>
   property_parent tree_nested_start 3 = Some 1 \<and>
   \<not> isTop_body tree_nested_start 0 3 \<and>
   truthy (isTop 3)"
  by (simp add: isTop_def isTop_body_def query_defs tree_nested_start_def noRoot_def)

text \<open>C6. \<open>breakLeft\<close> is to return the right half of the break on the side of
  \<open>start\<close>, and \<open>breakRight\<close> the left half of the break on the side of
  \<open>finish\<close>. No break is made: in \<open>R0[A1[2, 3, 4], 5]\<close> \<open>breaker\<close> would split the
  node 1 at 3 into the shells 6 and 7, and \<open>breakLeft\<close> from 3 up to 0 returns 3 itself
  and leaves the tree as it was; in \<open>R0[1, B2[3, 4, 5]]\<close> \<open>breakRight\<close> from 4 up to
  0 returns 4 itself. Neither marker is a child of 0.\<close>

theorem breaks_return_the_boundary_unsplit:
  "fst (breaker tree_nested_start 1 3) = Some \<lparr>left = 6, right = 7\<rparr> \<and>
   breakLeft tree_nested_start 3 0 = Some (adt_descendant 3, tree_nested_start) \<and>
   property_children tree_nested_start 0 = [1, 5] \<and>
   breakRight tree_nested_finish 4 0 = Some (adt_descendant 4, tree_nested_finish) \<and>
   property_children tree_nested_finish 0 = [1, 2]"
proof -
  have a: "fst (breaker tree_nested_start 1 3) = Some \<lparr>left = 6, right = 7\<rparr>"
    by (simp add: breaker_def breakAt_def fresh_def query_defs tree_nested_start_def Let_def)
  have b: "property_children tree_nested_start 0 = [1, 5]"
    by (simp add: property_children_def tree_nested_start_def)
  have c: "property_children tree_nested_finish 0 = [1, 2]"
    by (simp add: property_children_def tree_nested_finish_def)
  from a b c show ?thesis
    by (simp add: breakLeft_eval breakRight_eval)
qed

text \<open>C7. When \<open>finish\<close> is the last child of its parent, or \<open>start\<close> the first,
  the existing node is to be the marker and the returned sequence is to contain its
  handle. In \<open>R0[1, B2[3, 4, 5]]\<close> the handle 5 is the last child of the node 2, and
  the nodes 1 and 2, as they are, hold the span of start 1 and finish 5; \<open>fossil\<close>
  returns the empty sequence. In \<open>R0[A1[2, 3], 4]\<close> the handle 2 is the first child
  of the node 1, and the nodes 1 and 4 hold the span of start 2 and finish 4;
  \<open>fossil\<close> returns no sequence. In both the marker is the boundary itself, which is
  not a child of the common ancestor 0.\<close>

theorem boundary_child_handle_not_returned:
  "property_parent tree_nested_finish 5 = Some 2 \<and>
   findIndex (property_children tree_nested_finish 2) (eq 5) + 1 =
     int (length (property_children tree_nested_finish 2)) \<and>
   shared tree_nested_finish noRoot 1 5 = Some 0 \<and>
   property_children tree_nested_finish 0 = [1, 2] \<and>
   leaves_of_slice tree_nested_finish [1, 2] = span_leaves tree_nested_finish 1 5 \<and>
   breakRight tree_nested_finish 5 0 = Some (adt_descendant 5, tree_nested_finish) \<and>
   fossil tree_nested_finish noRoot 1 5 = Some (Some [], tree_nested_finish) \<and>
   property_parent tree_first_child 2 = Some 1 \<and>
   findIndex (property_children tree_first_child 1) (eq 2) = 0 \<and>
   shared tree_first_child noRoot 2 4 = Some 0 \<and>
   property_children tree_first_child 0 = [1, 4] \<and>
   leaves_of_slice tree_first_child [1, 4] = span_leaves tree_first_child 2 4 \<and>
   breakLeft tree_first_child 2 0 = Some (adt_descendant 2, tree_first_child) \<and>
   fossil tree_first_child noRoot 2 4 = Some (None, tree_first_child)"
proof -
  have a: "shared tree_nested_finish noRoot 1 5 = Some 0"
    by (simp add: query_defs tree_nested_finish_def noRoot_def)
  have b: "shared tree_first_child noRoot 2 4 = Some 0"
    by (simp add: query_defs tree_first_child_def noRoot_def)
  have "slice tree_nested_finish 0 (adt_descendant 1) (adt_descendant 5) = Some []"
    by (simp add: slice_defs property_children_def eq_def tree_nested_finish_def)
  with fossil_eval [OF a]
  have c: "fossil tree_nested_finish noRoot 1 5 = Some (Some [], tree_nested_finish)"
    by simp
  have "slice tree_first_child 0 (adt_descendant 2) (adt_descendant 4) = None"
    by (simp add: slice_defs property_children_def eq_def tree_first_child_def)
  with fossil_eval [OF b]
  have d: "fossil tree_first_child noRoot 2 4 = Some (None, tree_first_child)"
    by simp
  have e: "property_parent tree_nested_finish 5 = Some 2"
    and f: "findIndex (property_children tree_nested_finish 2) (eq 5) + 1 =
              int (length (property_children tree_nested_finish 2))"
    and g: "property_children tree_nested_finish 0 = [1, 2]"
    by (simp_all add: property_children_def property_parent_def eq_def tree_nested_finish_def)
  have i: "property_parent tree_first_child 2 = Some 1"
    and j: "findIndex (property_children tree_first_child 1) (eq 2) = 0"
    and k: "property_children tree_first_child 0 = [1, 4]"
    by (simp_all add: property_children_def property_parent_def eq_def tree_first_child_def)
  have l: "leaves_of_slice tree_nested_finish [1, 2] = span_leaves tree_nested_finish 1 5"
    by (simp add: leaves_of_slice_def span_leaves_def leaves_of_def tree_nested_finish_def)
  have m: "leaves_of_slice tree_first_child [1, 4] = span_leaves tree_first_child 2 4"
    by (simp add: leaves_of_slice_def span_leaves_def leaves_of_def tree_first_child_def)
  from a b c d e f g i j k l m show ?thesis
    by (simp add: breakLeft_eval breakRight_eval)
qed

text \<open>C8, as stated: a pair whose \<open>start\<close> does not precede \<open>finish\<close> is rejected.
  In \<open>P0[1, 2, 3, 4]\<close> the document order is 0, 1, 2, 3, 4, so 3 comes after 2, and
  \<open>fossil\<close> with start 3 and finish 2 does not fail: it returns a slice, the empty
  one.\<close>

theorem fossil_reversed_pair_not_rejected:
  "handles_list tree_siblings = [0, 1, 2, 3, 4] \<and>
   fossil tree_siblings noRoot 3 2 = Some (Some [], tree_siblings)"
proof -
  have h: "shared tree_siblings noRoot 3 2 = Some 0"
    by (simp add: query_defs tree_siblings_def noRoot_def)
  have "slice tree_siblings 0 (adt_descendant 3) (adt_descendant 2) = Some []"
    by (simp add: slice_defs property_children_def eq_def tree_siblings_def)
  with fossil_eval [OF h]
  have "fossil tree_siblings noRoot 3 2 = Some (Some [], tree_siblings)"
    by simp
  then show ?thesis
    by (simp add: tree_siblings_def noRoot_def)
qed

text \<open>C8, amended. \<open>fossil\<close> does not look at the order of \<open>start\<close> and
  \<open>finish\<close>. When both are direct children of the common ancestor and \<open>start\<close>
  comes after \<open>finish\<close>, it returns the empty slice and leaves the tree as it was.\<close>

theorem fossil_reversed_children_empty:
  assumes "shared u isRoot start finish = Some common"
    and "start \<noteq> common" and "finish \<noteq> common"
    and "0 \<le> findIndex (property_children u common) (eq finish)"
    and "findIndex (property_children u common) (eq finish)
           < findIndex (property_children u common) (eq start)"
  shows "fossil u isRoot start finish = Some (Some [], u)"
proof -
  let ?cs = "property_children u common"
  have "js_slice ?cs (findIndex ?cs (eq start)) (findIndex ?cs (eq finish) + 1) = []"
    using assms(4,5) by (intro js_slice_empty) linarith+
  with assms show ?thesis
    by (simp add: fossil_eval [OF assms(1)] slice_def slice_fi_def slice_li_def Let_def)
qed

theorem fossil_reversed_children_empty_witness:
  "shared tree_siblings noRoot 4 1 = Some 0 \<and>
   findIndex (property_children tree_siblings 0) (eq 1) = 0 \<and>
   findIndex (property_children tree_siblings 0) (eq 4) = 3 \<and>
   fossil tree_siblings noRoot 4 1 = Some (Some [], tree_siblings)"
proof -
  have h: "shared tree_siblings noRoot 4 1 = Some 0"
    by (simp add: query_defs tree_siblings_def noRoot_def)
  have i1: "findIndex (property_children tree_siblings 0) (eq 1) = 0"
    and i4: "findIndex (property_children tree_siblings 0) (eq 4) = 3"
    by (simp_all add: query_defs tree_siblings_def)
  from fossil_reversed_children_empty [OF h] i1 i4 h show ?thesis
    by simp
qed

text \<open>C9. In \<open>slice\<close> a parent marker on the left gives the start index 0 and a parent
  marker on the right gives the number of children as end index, whatever the element
  in the marker. \<open>breakLeft\<close> and \<open>breakRight\<close> return a parent marker when the
  boundary is the common ancestor. So when the common ancestor is \<open>start\<close>, what
  \<open>fossil\<close> returns is the children of the common ancestor from the first one up to
  the end index \<open>slice\<close> has for the marker of the finish side, and never a failure;
  when it is \<open>finish\<close>, it is the children from the start index of the marker of the
  start side to the last one, and a failure only when that marker is not found. This
  holds for whatever the library's \<open>breakPath\<close> does, and so for the one modelled
  from the spec.\<close>

theorem slice_parent_markers:
  "slice_fi cs (adt_parent a) = 0 \<and>
   slice_li cs (adt_parent b) = int (length cs) \<and>
   breakLeft u common common = Some (adt_parent common, u) \<and>
   breakRight u common common = Some (adt_parent common, u) \<and>
   slice u common (adt_parent a) (adt_parent b) = Some (property_children u common) \<and>
   slice u common (adt_parent a) (adt_descendant l) =
     Some (take (nat (findIndex (property_children u common) (eq l) + 1))
             (property_children u common)) \<and>
   slice u common (adt_descendant f) (adt_parent b) =
     (if findIndex (property_children u common) (eq f) > - 1
      then Some (drop (nat (findIndex (property_children u common) (eq f)))
                   (property_children u common))
      else None) \<and>
   (shared u isRoot start finish = Some start \<and>
    breakRight_with bp u finish start = Some (sb, u1) \<longrightarrow>
      fossil_with bp u isRoot start finish =
        Some (Some (take (nat (slice_li (property_children u1 start) sb))
                      (property_children u1 start)), u1)) \<and>
   (shared u isRoot start finish = Some finish \<and>
    breakLeft_with bp u start finish = Some (fb, u2) \<longrightarrow>
      fossil_with bp u isRoot start finish =
        Some (if slice_fi (property_children u2 finish) fb > - 1
              then Some (drop (nat (slice_fi (property_children u2 finish) fb))
                           (property_children u2 finish))
              else None, u2)) \<and>
   (shared u isRoot start finish = Some start \<longrightarrow>
      (\<exists>m v. breakRight u finish start = Some (m, v) \<and>
         fossil u isRoot start finish =
           Some (Some (take (nat (slice_li (property_children v start) m))
                         (property_children v start)), v))) \<and>
   (shared u isRoot start finish = Some finish \<longrightarrow>
      (\<exists>m v. breakLeft u start finish = Some (m, v) \<and>
         fossil u isRoot start finish =
           Some (if slice_fi (property_children v finish) m > - 1
                 then Some (drop (nat (slice_fi (property_children v finish) m))
                              (property_children v finish))
                 else None, v)))"
proof -
  have p1: "slice_fi cs (adt_parent a) = 0"
    and p2: "slice_li cs (adt_parent b) = int (length cs)"
    by (simp_all add: slice_fi_def slice_li_def)
  have p3: "breakLeft u common common = Some (adt_parent common, u)"
    and p4: "breakRight u common common = Some (adt_parent common, u)"
    by (simp_all add: breakLeft_eval breakRight_eval)
  have p5: "slice u common (adt_parent a) (adt_parent b) = Some (property_children u common)"
    by (simp add: slice_parent_first slice_li_def)
  have p6: "slice u common (adt_parent a) (adt_descendant l) =
     Some (take (nat (findIndex (property_children u common) (eq l) + 1))
             (property_children u common))"
    by (simp add: slice_parent_first slice_li_def)
  have p7: "slice u common (adt_descendant f) (adt_parent b) =
     (if findIndex (property_children u common) (eq f) > - 1
      then Some (drop (nat (findIndex (property_children u common) (eq f)))
                   (property_children u common))
      else None)"
    by (simp add: slice_parent_last slice_fi_def)
  have g1: "\<And>bp sb u1. shared u isRoot start finish = Some start \<and>
      breakRight_with bp u finish start = Some (sb, u1) \<longrightarrow>
        fossil_with bp u isRoot start finish =
          Some (Some (take (nat (slice_li (property_children u1 start) sb))
                        (property_children u1 start)), u1)"
    by (simp add: fossil_with_def breakLeft_with_common slice_parent_first)
  have g2: "\<And>bp fb u2. shared u isRoot start finish = Some finish \<and>
      breakLeft_with bp u start finish = Some (fb, u2) \<longrightarrow>
        fossil_with bp u isRoot start finish =
          Some (if slice_fi (property_children u2 finish) fb > - 1
                then Some (drop (nat (slice_fi (property_children u2 finish) fb))
                             (property_children u2 finish))
                else None, u2)"
    by (simp add: fossil_with_def breakRight_with_common slice_parent_last)
  have c1: "shared u isRoot start finish = Some start \<longrightarrow>
      (\<exists>m v. breakRight u finish start = Some (m, v) \<and>
         fossil u isRoot start finish =
           Some (Some (take (nat (slice_li (property_children v start) m))
                         (property_children v start)), v))"
  proof
    assume h: "shared u isRoot start finish = Some start"
    obtain m where m: "breakRight u finish start = Some (m, u)"
      by (simp add: breakRight_eval)
    then have "breakRight_with breakPath u finish start = Some (m, u)"
      by (simp add: breakRight_def)
    with g1 [of breakPath m u] h
    have "fossil u isRoot start finish =
           Some (Some (take (nat (slice_li (property_children u start) m))
                         (property_children u start)), u)"
      by (simp add: fossil_def)
    with m show "\<exists>m v. breakRight u finish start = Some (m, v) \<and>
         fossil u isRoot start finish =
           Some (Some (take (nat (slice_li (property_children v start) m))
                         (property_children v start)), v)"
      by blast
  qed
  have c2: "shared u isRoot start finish = Some finish \<longrightarrow>
      (\<exists>m v. breakLeft u start finish = Some (m, v) \<and>
         fossil u isRoot start finish =
           Some (if slice_fi (property_children v finish) m > - 1
                 then Some (drop (nat (slice_fi (property_children v finish) m))
                              (property_children v finish))
                 else None, v))"
  proof
    assume h: "shared u isRoot start finish = Some finish"
    obtain m where m: "breakLeft u start finish = Some (m, u)"
      by (simp add: breakLeft_eval)
    then have "breakLeft_with breakPath u start finish = Some (m, u)"
      by (simp add: breakLeft_def)
    with g2 [of breakPath m u] h
    have "fossil u isRoot start finish =
           Some (if slice_fi (property_children u finish) m > - 1
                 then Some (drop (nat (slice_fi (property_children u finish) m))
                              (property_children u finish))
                 else None, u)"
      by (simp add: fossil_def)
    with m show "\<exists>m v. breakLeft u start finish = Some (m, v) \<and>
         fossil u isRoot start finish =
           Some (if slice_fi (property_children v finish) m > - 1
                 then Some (drop (nat (slice_fi (property_children v finish) m))
                              (property_children v finish))
                 else None, v)"
      by blast
  qed
  from p1 p2 p3 p4 p5 p6 p7 g1 [of bp sb u1] g2 [of bp fb u2] c1 c2 show ?thesis
    by (intro conjI)
qed

text \<open>In \<open>P0[1, 2, 3, 4]\<close> with start 0, the parent itself, and finish 2 the slice is
  the children 1 and 2; with start 3 and finish 0 it is the children 3 and 4. In
  \<open>R0[A1[2, 3, 4], B5[6, 7, 8]]\<close> with start 0 and finish 7 and a library that splits,
  the marker of the finish side is the shell 9 and the slice is the children 1 and 9 of
  the tree after the split.\<close>

theorem slice_parent_markers_witness:
  "shared tree_siblings noRoot 0 2 = Some 0 \<and>
   fossil tree_siblings noRoot 0 2 = Some (Some [1, 2], tree_siblings) \<and>
   shared tree_siblings noRoot 3 0 = Some 0 \<and>
   fossil tree_siblings noRoot 3 0 = Some (Some [3, 4], tree_siblings) \<and>
   shared tree_two_branches noRoot 0 7 = Some 0 \<and>
   fossil_with breakPath_once tree_two_branches noRoot 0 7 =
     Some (Some [1, 9],
       [Element 0 [Element 1 [Element 2 [], Element 3 [], Element 4 []],
                   Element 9 [Element 6 []], Element 10 [Element 7 [], Element 8 []]]])"
proof -
  let ?t1 = "[Element 0 [Element 1 [Element 2 [], Element 3 [], Element 4 []],
                   Element 9 [Element 6 []], Element 10 [Element 7 [], Element 8 []]]]"
  have h1: "shared tree_siblings noRoot 0 2 = Some 0"
    by (simp add: query_defs tree_siblings_def noRoot_def)
  have h2: "shared tree_siblings noRoot 3 0 = Some 0"
    by (simp add: query_defs tree_siblings_def noRoot_def)
  have h3: "shared tree_two_branches noRoot 0 7 = Some 0"
    by (simp add: query_defs tree_two_branches_def noRoot_def)
  have r1: "breakRight_with breakPath tree_siblings 2 0 = Some (adt_descendant 2, tree_siblings)"
    using breakRight_eval [of tree_siblings 2 0] by (simp add: breakRight_def)
  have l2: "breakLeft_with breakPath tree_siblings 3 0 = Some (adt_descendant 3, tree_siblings)"
    using breakLeft_eval [of tree_siblings 3 0] by (simp add: breakLeft_def)
  have r3: "breakRight_with breakPath_once tree_two_branches 7 0 = Some (adt_descendant 9, ?t1)"
    by (simp add: breakRight_with_def breakPath_once_def breakAt_def fresh_def
        property_children_def property_parent_def eq_def tree_two_branches_def Let_def)
  have v1: "take (nat (slice_li (property_children tree_siblings 0) (adt_descendant 2)))
              (property_children tree_siblings 0) = [1, 2]"
    by (simp add: slice_li_def property_children_def eq_def tree_siblings_def)
  have v2: "slice_fi (property_children tree_siblings 0) (adt_descendant 3) = 2"
    and v2': "drop 2 (property_children tree_siblings 0) = [3, 4]"
    by (simp_all add: slice_fi_def property_children_def eq_def tree_siblings_def)
  have v3: "take (nat (slice_li (property_children ?t1 0) (adt_descendant 9)))
              (property_children ?t1 0) = [1, 9]"
    by (simp add: slice_li_def property_children_def eq_def)
  from slice_parent_markers
         [where bp = breakPath and u = tree_siblings and isRoot = noRoot and start = 0
            and finish = 2 and sb = "adt_descendant 2" and ?u1.0 = tree_siblings] h1 r1 v1
  have a: "fossil tree_siblings noRoot 0 2 = Some (Some [1, 2], tree_siblings)"
    by (simp add: fossil_def)
  from slice_parent_markers
         [where bp = breakPath and u = tree_siblings and isRoot = noRoot and start = 3
            and finish = 0 and fb = "adt_descendant 3" and ?u2.0 = tree_siblings] h2 l2 v2 v2'
  have b: "fossil tree_siblings noRoot 3 0 = Some (Some [3, 4], tree_siblings)"
    by (simp add: fossil_def)
  from slice_parent_markers
         [where bp = breakPath_once and u = tree_two_branches and isRoot = noRoot
            and start = 0 and finish = 7 and sb = "adt_descendant 9" and ?u1.0 = ?t1] h3 r3 v3
  have c: "fossil_with breakPath_once tree_two_branches noRoot 0 7 = Some (Some [1, 9], ?t1)"
    by simp
  from h1 h2 h3 a b c show ?thesis
    by simp
qed

text \<open>C10. \<open>setContentInternal\<close> returns the content it was given when
  \<open>preProcessSetContent\<close> yields no arguments, and the editor is then as
  \<open>preProcessSetContent\<close> left it. It also returns the content it was given when the
  editor has no body: nothing is written to the document then, the editor is what
  \<open>postProcessSetContent\<close> makes of the state after \<open>preProcessSetContent\<close>, called
  with the content of the updated arguments as html.\<close>

theorem setContentInternal_returns_content:
  "(preProcessSetContent h editor (setupArgs args content) = (None, e1) \<longrightarrow>
      setContentInternal h editor content args = (content, e1)) \<and>
   (preProcessSetContent h editor (setupArgs args content) = (Some updatedArgs, e1) \<and>
    getBody h e1 = None \<longrightarrow>
      setContentInternal h editor content args =
        (content, postProcessSetContent h e1 (arg_content updatedArgs) updatedArgs))"
  by (simp add: setContentInternal_def Let_def)

theorem setContentInternal_returns_content_witness:
  "setContentInternal example_host (True, []) (ContentString ''veto'' :: nat content) no_args =
     (ContentString ''veto'', (True, [])) \<and>
   setContentInternal example_host (False, []) (ContentString ''<p>a</p>'' :: nat content) no_args =
     (ContentString ''<p>a</p>'', (False, [''SetContent''])) \<and>
   setContentInternal example_host (False, []) (ContentTree 7) no_args =
     (ContentTree 7, (False, [''SetContent'']))"
proof -
  have a: "preProcessSetContent example_host (True, [])
             (setupArgs no_args (ContentString ''veto'' :: nat content)) = (None, (True, []))"
    by (simp add: example_host_def setupArgs_def)
  have b: "preProcessSetContent example_host (False, [])
             (setupArgs no_args (ContentString ''<p>a</p>'' :: nat content)) =
           (Some (setupArgs no_args (ContentString ''<p>a</p>'' :: nat content)), (False, []))"
    by (simp add: example_host_def setupArgs_def)
  have c: "preProcessSetContent example_host (False, [])
             (setupArgs no_args (ContentTree 7 :: nat content)) =
           (Some (setupArgs no_args (ContentTree 7 :: nat content)), (False, []))"
    by (simp add: example_host_def setupArgs_def)
  have g: "getBody example_host (False, []) = None"
    by (simp add: example_host_def)
  have p: "\<And>s a. postProcessSetContent example_host (False, []) s a = (False, [''SetContent''])"
    by (simp add: example_host_def)
  from setContentInternal_returns_content
         [where h = example_host and editor = "(True, [])" and args = no_args
            and content = "ContentString ''veto''" and ?e1.0 = "(True, [])"] a
  have 1: "setContentInternal example_host (True, []) (ContentString ''veto'' :: nat content)
             no_args = (ContentString ''veto'', (True, []))"
    by simp
  from setContentInternal_returns_content
         [where h = example_host and editor = "(False, [])" and args = no_args
            and content = "ContentString ''<p>a</p>''" and ?e1.0 = "(False, [])"] b g p
  have 2: "setContentInternal example_host (False, [])
             (ContentString ''<p>a</p>'' :: nat content) no_args =
           (ContentString ''<p>a</p>'', (False, [''SetContent'']))"
    by simp
  from setContentInternal_returns_content
         [where h = example_host and editor = "(False, [])" and args = no_args
            and content = "ContentTree 7" and ?e1.0 = "(False, [])"] c g p
  have 3: "setContentInternal example_host (False, []) (ContentTree 7) no_args =
           (ContentTree 7, (False, [''SetContent'']))"
    by simp
  from 1 2 3 show ?thesis
    by simp
qed


end
